theory Spec2Isabelle
  imports Main "HOL-Library.Sublist"
begin

section \<open>Python values\<close>

text \<open>
  The application is a Flask program (\<^verbatim>\<open>src/app.py\<close>) that walks parsed JSON with
  duck-typed accesses. A parsed JSON document is a value of \<open>pyval\<close>; a dictionary is
  an association list in insertion order (a parsed dictionary has distinct keys).
  JSON numbers are integers here; floating-point numbers are outside the model.
  A Python \<^verbatim>\<open>str\<close> is a \<open>string\<close>, each \<open>char\<close> standing for the code point of the
  same number (U+0000 to U+00FF).
\<close>

datatype pyval =
    PNone
  | PBool bool
  | PInt int
  | PStr string
  | PList "pyval list"
  | PDict "(string \<times> pyval) list"

text \<open>The exceptions the modelled code can raise.\<close>

datatype exn =
    AttributeError
  | KeyError
  | TypeError
  | ValueError
  | IndexError
  | RequestException
  | HTTPError
  | JSONDecodeError

text \<open>Sequencing of computations that may raise: the first exception ends the chain.\<close>

definition bind_exn :: "exn + 'a \<Rightarrow> ('a \<Rightarrow> exn + 'b) \<Rightarrow> exn + 'b" where
  "bind_exn m f = (case m of Inl e \<Rightarrow> Inl e | Inr x \<Rightarrow> f x)"

text \<open>Truth value testing (\<^verbatim>\<open>if x\<close>, \<^verbatim>\<open>not x\<close>, \<^verbatim>\<open>x or y\<close>).\<close>

fun truthy :: "pyval \<Rightarrow> bool" where
  "truthy PNone = False"
| "truthy (PBool b) = b"
| "truthy (PInt n) = (n \<noteq> 0)"
| "truthy (PStr s) = (s \<noteq> [])"
| "truthy (PList xs) = (xs \<noteq> [])"
| "truthy (PDict kvs) = (kvs \<noteq> [])"

definition py_or :: "pyval \<Rightarrow> pyval \<Rightarrow> pyval" where
  "py_or x y = (if truthy x then x else y)"

text \<open>\<^verbatim>\<open>x.get(k, default)\<close>: only a dictionary has the method.\<close>

fun dict_get :: "pyval \<Rightarrow> string \<Rightarrow> pyval \<Rightarrow> exn + pyval" where
  "dict_get (PDict kvs) k dflt = Inr (case map_of kvs k of None \<Rightarrow> dflt | Some v \<Rightarrow> v)"
| "dict_get _ k dflt = Inl AttributeError"

text \<open>\<^verbatim>\<open>x[k]\<close> with a string key.\<close>

fun subscript :: "pyval \<Rightarrow> string \<Rightarrow> exn + pyval" where
  "subscript (PDict kvs) k = (case map_of kvs k of None \<Rightarrow> Inl KeyError | Some v \<Rightarrow> Inr v)"
| "subscript _ k = Inl TypeError"

text \<open>\<^verbatim>\<open>x[0]\<close>.\<close>

fun subscript0 :: "pyval \<Rightarrow> exn + pyval" where
  "subscript0 (PList []) = Inl IndexError"
| "subscript0 (PList (x # xs)) = Inr x"
| "subscript0 (PStr []) = Inl IndexError"
| "subscript0 (PStr (c # cs)) = Inr (PStr [c])"
| "subscript0 (PDict kvs) = Inl KeyError"
| "subscript0 _ = Inl TypeError"

text \<open>\<^verbatim>\<open>k in x\<close> with a string \<open>k\<close>: key membership, element membership, substring.\<close>

fun is_substring :: "string \<Rightarrow> string \<Rightarrow> bool" where
  "is_substring k [] = (k = [])"
| "is_substring k (c # cs) = (take (length k) (c # cs) = k \<or> is_substring k cs)"

fun py_in :: "string \<Rightarrow> pyval \<Rightarrow> exn + bool" where
  "py_in k (PDict kvs) = Inr (k \<in> set (map fst kvs))"
| "py_in k (PList xs) = Inr (PStr k \<in> set xs)"
| "py_in k (PStr s) = Inr (is_substring k s)"
| "py_in k _ = Inl TypeError"

text \<open>Iteration (\<^verbatim>\<open>for g in x\<close>) and \<^verbatim>\<open>x.items()\<close>.\<close>

fun py_iter :: "pyval \<Rightarrow> exn + pyval list" where
  "py_iter (PList xs) = Inr xs"
| "py_iter (PStr s) = Inr (map (\<lambda>c. PStr [c]) s)"
| "py_iter (PDict kvs) = Inr (map (\<lambda>kv. PStr (fst kv)) kvs)"
| "py_iter _ = Inl TypeError"

fun py_items :: "pyval \<Rightarrow> exn + (string \<times> pyval) list" where
  "py_items (PDict kvs) = Inr kvs"
| "py_items _ = Inl AttributeError"

fun is_dict :: "pyval \<Rightarrow> bool" where
  "is_dict (PDict kvs) = True"
| "is_dict _ = False"

subsection \<open>Strings and integers\<close>

definition is_space :: "char \<Rightarrow> bool" where
  "is_space c = (let n = (of_char c :: nat) in
     (9 \<le> n \<and> n \<le> 13) \<or> (28 \<le> n \<and> n \<le> 32) \<or> n = 133 \<or> n = 160)"

text \<open>\<^verbatim>\<open>s.strip()\<close>.\<close>

definition strip :: "string \<Rightarrow> string" where
  "strip s = rev (dropWhile is_space (rev (dropWhile is_space s)))"

definition is_digit :: "char \<Rightarrow> bool" where
  "is_digit c = (let n = (of_char c :: nat) in 48 \<le> n \<and> n \<le> 57)"

definition digit_val :: "char \<Rightarrow> nat" where
  "digit_val c = of_char c - 48"

text \<open>
  The digits of a decimal literal as \<^verbatim>\<open>int(s)\<close> reads them: one or more digits, single
  underscores allowed between two digits. The function is called where a digit is
  expected.
\<close>

fun parse_digits :: "string \<Rightarrow> nat \<Rightarrow> nat option" where
  "parse_digits [] acc = None"
| "parse_digits [c] acc = (if is_digit c then Some (acc * 10 + digit_val c) else None)"
| "parse_digits (c # d # cs) acc =
     (if \<not> is_digit c then None
      else if d = CHR ''_'' then parse_digits cs (acc * 10 + digit_val c)
      else parse_digits (d # cs) (acc * 10 + digit_val c))"

text \<open>\<^verbatim>\<open>int(s)\<close> for a string: surrounding whitespace, an optional sign, the digits.\<close>

definition int_of_str :: "string \<Rightarrow> exn + int" where
  "int_of_str s =
     (case strip s of
        [] \<Rightarrow> Inl ValueError
      | c # cs \<Rightarrow>
          (case (if c = CHR ''-'' then map_option (\<lambda>n. - int n) (parse_digits cs 0)
                 else if c = CHR ''+'' then map_option int (parse_digits cs 0)
                 else map_option int (parse_digits (c # cs) 0)) of
             None \<Rightarrow> Inl ValueError
           | Some i \<Rightarrow> Inr i))"

text \<open>\<^verbatim>\<open>int(x)\<close>.\<close>

fun py_int :: "pyval \<Rightarrow> exn + int" where
  "py_int (PInt n) = Inr n"
| "py_int (PBool b) = Inr (if b then 1 else 0)"
| "py_int (PStr s) = int_of_str s"
| "py_int _ = Inl TypeError"

text \<open>\<^verbatim>\<open>str(n)\<close> for an integer.\<close>

function str_nat :: "nat \<Rightarrow> string" where
  "str_nat n = (if n < 10 then [''0123456789'' ! n]
                else str_nat (n div 10) @ [''0123456789'' ! (n mod 10)])"
  by pat_completeness auto
termination
  by (relation "measure id") auto

definition str_int :: "int \<Rightarrow> string" where
  "str_int i = (if i < 0 then CHR ''-'' # str_nat (nat (- i)) else str_nat (nat i))"

section \<open>Persistence store\<close>

text \<open>
  The two tables of the ORM models \<^verbatim>\<open>Favourite\<close> and \<^verbatim>\<open>Review\<close>. The session is
  made explicit: every operation takes the store and returns the new one. The clock read
  by the column defaults is the argument \<open>now\<close>. The primary key of a new row is one more
  than the largest key in the table, as SQLite assigns it.
\<close>

record favourite =
  fav_id :: int
  fav_appid :: int
  fav_name :: string
  fav_image :: "string option"
  fav_added_at :: nat

record review =
  rev_id :: int
  rev_appid :: int
  rev_rating :: int
  rev_text :: string
  rev_created_at :: nat

record store =
  favourites :: "favourite list"
  reviews :: "review list"

definition next_id :: "int list \<Rightarrow> int" where
  "next_id ids = foldr max ids 0 + 1"

text \<open>\<^verbatim>\<open>Favourite.query.filter_by(appid=n).first()\<close>\<close>

definition first_favourite :: "int \<Rightarrow> store \<Rightarrow> favourite option" where
  "first_favourite n s = find (\<lambda>r. fav_appid r = n) (favourites s)"

text \<open>\<^verbatim>\<open>db.session.delete(row); db.session.commit()\<close>: the row is deleted by its key.\<close>

definition delete_favourite :: "favourite \<Rightarrow> store \<Rightarrow> store" where
  "delete_favourite row s =
     s\<lparr>favourites := filter (\<lambda>r. fav_id r \<noteq> fav_id row) (favourites s)\<rparr>"

definition add_favourite_db ::
  "pyval \<Rightarrow> string \<Rightarrow> string option \<Rightarrow> nat \<Rightarrow> store \<Rightarrow> exn + (bool \<times> store)" where
  "add_favourite_db appid name img now s =
     bind_exn (py_int appid) (\<lambda>n.
       case first_favourite n s of
         Some existing \<Rightarrow> Inr (False, s)
       | None \<Rightarrow>
           bind_exn (py_int appid) (\<lambda>m.
             let fav = \<lparr>fav_id = next_id (map fav_id (favourites s)), fav_appid = m,
                        fav_name = name, fav_image = img, fav_added_at = now\<rparr>
             in Inr (True, s\<lparr>favourites := favourites s @ [fav]\<rparr>)))"

definition remove_favourite_db :: "pyval \<Rightarrow> store \<Rightarrow> exn + (bool \<times> store)" where
  "remove_favourite_db appid s =
     bind_exn (py_int appid) (\<lambda>n.
       case first_favourite n s of
         None \<Rightarrow> Inr (False, s)
       | Some row \<Rightarrow> Inr (True, delete_favourite row s))"

definition add_review_db ::
  "pyval \<Rightarrow> pyval \<Rightarrow> string \<Rightarrow> nat \<Rightarrow> store \<Rightarrow> exn + (bool \<times> store)" where
  "add_review_db appid rating text now s =
     bind_exn (py_int appid) (\<lambda>n.
     bind_exn (py_int rating) (\<lambda>k.
       let r = \<lparr>rev_id = next_id (map rev_id (reviews s)), rev_appid = n, rev_rating = k,
                rev_text = strip text, rev_created_at = now\<rparr>
       in Inr (True, s\<lparr>reviews := reviews s @ [r]\<rparr>)))"

text \<open>
  A store operation as a value, and a sequence of them run in order. An operation that
  raises has committed nothing, so the store stays as it was.
\<close>

datatype store_op =
    AddFavourite pyval string "string option" nat
  | RemoveFavourite pyval
  | AddReview pyval pyval string nat

fun run_op :: "store_op \<Rightarrow> store \<Rightarrow> exn + (bool \<times> store)" where
  "run_op (AddFavourite appid name img now) s = add_favourite_db appid name img now s"
| "run_op (RemoveFavourite appid) s = remove_favourite_db appid s"
| "run_op (AddReview appid rating text now) s = add_review_db appid rating text now s"

definition store_after :: "store_op \<Rightarrow> store \<Rightarrow> store" where
  "store_after op s = (case run_op op s of Inl e \<Rightarrow> s | Inr (b, s') \<Rightarrow> s')"

fun run_ops :: "store_op list \<Rightarrow> store \<Rightarrow> store" where
  "run_ops [] s = s"
| "run_ops (op # ops) s = run_ops ops (store_after op s)"

text \<open>The uniqueness invariant of the favourites table.\<close>

definition unique_appids :: "store \<Rightarrow> bool" where
  "unique_appids s = distinct (map fav_appid (favourites s))"

section \<open>Form routes\<close>

text \<open>
  A form is a partial map from field names to strings (\<^verbatim>\<open>request.form.get\<close> gives
  \<^verbatim>\<open>None\<close> for a missing field). A handler ends in a flashed notice (message and
  category) and a redirect, or raises.
\<close>

datatype target = ToIndex | ToGameDetail int | ToFavouritesPage | ToUrl string

datatype outcome = Redirect string string target

text \<open>\<^verbatim>\<open>not x\<close> for the result of \<^verbatim>\<open>request.form.get\<close>.\<close>

fun blank :: "string option \<Rightarrow> bool" where
  "blank None = True"
| "blank (Some v) = (v = [])"


text \<open>
  In each handler a field that passed the test \<^verbatim>\<open>not x\<close> is present, so the case of
  a missing field after the test is never taken; \<^verbatim>\<open>text.strip()\<close> of
  \<open>add_review_route\<close> is evaluated on the field whether it is present or not.
\<close>

definition add_review_route ::
  "(string \<rightharpoonup> string) \<Rightarrow> int \<Rightarrow> nat \<Rightarrow> store \<Rightarrow> exn + (outcome \<times> store)" where
  "add_review_route form appid now s =
     (let rating = form ''rating''; text = form ''text'';
          warn = Inr (Redirect ''Please provide both a rating and a review.'' ''warning''
                   (ToGameDetail appid), s)
      in if blank rating then warn
         else (case text of
                 None \<Rightarrow> Inl AttributeError
               | Some t \<Rightarrow>
                   if strip t = [] then warn
                   else (case rating of
                           None \<Rightarrow> warn
                         | Some r \<Rightarrow>
                             bind_exn (add_review_db (PInt appid) (PStr r) t now s) (\<lambda>res.
                               Inr (Redirect ''Review submitted!'' ''success''
                                      (ToGameDetail appid), snd res)))))"



section \<open>Outbound requests\<close>

text \<open>
  The three endpoints the program calls. A request is named by what determines its URL:
  the appid and language of the details endpoint, nothing for the categories endpoint,
  the game name the search query is formatted from for the video search page.

  The outside world is a function from the number of requests made so far and the
  request to its response, so that the same request can be answered differently when it
  is repeated. \<open>Fails\<close> is \<^verbatim>\<open>requests.get\<close> raising (connection error, timeout);
  \<open>Reply ok body js\<close> is a response whose status is a success or not (\<open>ok\<close>), with its
  text and, when the text is JSON, the value \<^verbatim>\<open>r.json()\<close> parses it to.

  The state threaded through the program is the list of the requests made so far, oldest
  first. The diagnostic \<^verbatim>\<open>print\<close> of \<open>get_steam_game\<close> is not part of the model.
\<close>

datatype request =
    GetAppDetails int string
  | GetFeaturedCategories
  | GetYoutubeResults pyval

datatype response = Fails | Reply bool string "pyval option"

type_synonym network = "nat \<Rightarrow> request \<Rightarrow> response"

definition http_get :: "network \<Rightarrow> request \<Rightarrow> request list \<Rightarrow> response \<times> request list" where
  "http_get net req log = (net (length log) req, log @ [req])"

text \<open>\<^verbatim>\<open>r.raise_for_status(); j = r.json()\<close>\<close>

fun json_of :: "response \<Rightarrow> exn + pyval" where
  "json_of Fails = Inl RequestException"
| "json_of (Reply ok body js) =
     (if \<not> ok then Inl HTTPError
      else case js of None \<Rightarrow> Inl JSONDecodeError | Some j \<Rightarrow> Inr j)"

section \<open>Video fallback resolver\<close>

definition is_id_char :: "char \<Rightarrow> bool" where
  "is_id_char c = (let n = (of_char c :: nat) in
     (65 \<le> n \<and> n \<le> 90) \<or> (97 \<le> n \<and> n \<le> 122) \<or> (48 \<le> n \<and> n \<le> 57) \<or>
     c = CHR ''_'' \<or> c = CHR ''-'')"

text \<open>
  \<^verbatim>\<open>re.search(r"watch\?v=([A-Za-z0-9_-]{11})", text)\<close>: the leftmost position where
  the marker is followed by eleven characters of the class; the result is group 1.
\<close>

fun re_search_watch :: "string \<Rightarrow> string option" where
  "re_search_watch [] = None"
| "re_search_watch (c # cs) =
     (let video_id = take 11 (drop 8 (c # cs)) in
      if take 8 (c # cs) = ''watch?v='' \<and> length video_id = 11 \<and> list_all is_id_char video_id
      then Some video_id
      else re_search_watch cs)"

definition search_youtube_trailer ::
  "network \<Rightarrow> pyval \<Rightarrow> request list \<Rightarrow> pyval \<times> request list" where
  "search_youtube_trailer net game_name log =
     (let (r, log1) = http_get net (GetYoutubeResults game_name) log in
      case r of
        Fails \<Rightarrow> (PNone, log1)
      | Reply ok body js \<Rightarrow>
          (case re_search_watch body of
             Some video_id \<Rightarrow> (PStr (''https://www.youtube.com/embed/'' @ video_id), log1)
           | None \<Rightarrow> (PNone, log1)))"

section \<open>Catalog client\<close>

record game =
  game_appid :: int
  game_name :: pyval
  short_description :: pyval
  header_image :: pyval
  genres :: "pyval list"
  price :: pyval
  store_link :: string
  trailer_url :: pyval

text \<open>The em dash of the price placeholder, in UTF-8.\<close>

definition em_dash :: string where
  "em_dash = [char_of (226 :: nat), char_of (128 :: nat), char_of (148 :: nat)]"

text \<open>
  Lines 152 to 155 of \<open>get_steam_game\<close>: the test
  \<^verbatim>\<open>key in j and j[key].get("success")\<close> and, when it holds, \<^verbatim>\<open>d = j[key]["data"]\<close>.
  The result is \<open>None\<close> when the test is false.
\<close>

definition details_data :: "int \<Rightarrow> pyval \<Rightarrow> exn + pyval option" where
  "details_data appid j =
     (let key = str_int appid in
      bind_exn (py_in key j) (\<lambda>has_key.
        if \<not> has_key then Inr None
        else bind_exn (subscript j key) (\<lambda>entry.
             bind_exn (dict_get entry ''success'' PNone) (\<lambda>success.
               if \<not> truthy success then Inr None
               else bind_exn (subscript entry ''data'') (\<lambda>d. Inr (Some d))))))"

text \<open>\<^verbatim>\<open>[g.get("description") for g in d.get("genres", [])]\<close>\<close>

fun genre_names :: "pyval list \<Rightarrow> exn + pyval list" where
  "genre_names [] = Inr []"
| "genre_names (g # gs) =
     bind_exn (dict_get g ''description'' PNone) (\<lambda>x.
     bind_exn (genre_names gs) (\<lambda>xs. Inr (x # xs)))"

text \<open>Lines 162 to 170: the trailer the catalog itself gives, \<open>PNone\<close> when it gives none.\<close>

definition steam_trailer :: "pyval \<Rightarrow> exn + pyval" where
  "steam_trailer d =
     bind_exn (dict_get d ''movies'' PNone) (\<lambda>m.
       let movies = py_or m (PList []) in
       if truthy movies then
         bind_exn (subscript0 movies) (\<lambda>first.
         bind_exn (dict_get first ''webm'' PNone) (\<lambda>w.
           let webm = py_or w (PDict []) in
           bind_exn (dict_get webm ''max'' PNone) (\<lambda>wmax.
           bind_exn (if truthy wmax then Inr wmax else dict_get webm ''480'' PNone) (\<lambda>trailer.
             if \<not> truthy trailer then
               bind_exn (dict_get first ''mp4'' PNone) (\<lambda>p.
                 let mp4 = py_or p (PDict []) in
                 bind_exn (dict_get mp4 ''max'' PNone) (\<lambda>pmax.
                   if truthy pmax then Inr pmax else dict_get mp4 ''480'' PNone))
             else Inr trailer))))
       else Inr PNone)"

text \<open>
  Lines 156 to 170 and the dictionary of lines 176 to 185, before the fallback: the
  fields read from \<open>d\<close>, with the catalog's own trailer as \<open>trailer_url\<close>.
\<close>

definition read_details :: "int \<Rightarrow> pyval \<Rightarrow> exn + game" where
  "read_details appid d =
     bind_exn (dict_get d ''header_image'' PNone) (\<lambda>header.
     bind_exn (dict_get d ''short_description'' PNone) (\<lambda>sd.
     bind_exn (dict_get d ''genres'' (PList [])) (\<lambda>gv.
     bind_exn (py_iter gv) (\<lambda>gl.
     bind_exn (genre_names gl) (\<lambda>gnames.
     bind_exn (dict_get d ''price_overview'' (PDict [])) (\<lambda>po.
     bind_exn (dict_get po ''final_formatted'' PNone) (\<lambda>ff.
     bind_exn (if truthy ff then Inr ff
               else bind_exn (dict_get d ''is_free'' PNone) (\<lambda>fr.
                      Inr (if truthy fr then PStr ''Free'' else PStr em_dash))) (\<lambda>pr.
     bind_exn (steam_trailer d) (\<lambda>trailer.
     bind_exn (dict_get d ''name'' PNone) (\<lambda>nm.
       Inr \<lparr>game_appid = appid, game_name = nm, short_description = py_or sd (PStr ''''),
            header_image = header, genres = gnames, price = pr,
            store_link = ''https://store.steampowered.com/app/'' @ str_int appid,
            trailer_url = trailer\<rparr>))))))))))"

text \<open>
  The body of the \<^verbatim>\<open>try\<close> of \<open>get_steam_game\<close>. The fallback resolver is called only
  after every field has been read, and nothing after the call can raise.
\<close>

definition get_steam_game_try ::
  "network \<Rightarrow> int \<Rightarrow> string \<Rightarrow> request list \<Rightarrow> (exn + game option) \<times> request list" where
  "get_steam_game_try net appid lang log =
     (let (r, log1) = http_get net (GetAppDetails appid lang) log in
      case bind_exn (json_of r) (details_data appid) of
        Inl e \<Rightarrow> (Inl e, log1)
      | Inr None \<Rightarrow> (Inr None, log1)
      | Inr (Some d) \<Rightarrow>
          (case read_details appid d of
             Inl e \<Rightarrow> (Inl e, log1)
           | Inr g \<Rightarrow>
               if \<not> truthy (trailer_url g) then
                 (let (trailer, log2) = search_youtube_trailer net (game_name g) log1
                  in (Inr (Some (g\<lparr>trailer_url := trailer\<rparr>)), log2))
               else (Inr (Some g), log1)))"

text \<open>\<^verbatim>\<open>except Exception\<close>: whatever the body raised, the function returns \<^verbatim>\<open>None\<close>.\<close>

definition get_steam_game ::
  "network \<Rightarrow> int \<Rightarrow> string \<Rightarrow> request list \<Rightarrow> game option \<times> request list" where
  "get_steam_game net appid lang log =
     (case get_steam_game_try net appid lang log of
        (Inl e, log1) \<Rightarrow> (None, log1)
      | (Inr res, log1) \<Rightarrow> (res, log1))"

subsection \<open>Top sellers\<close>

text \<open>
  The two inner loops of \<open>fetch_top_sellers\<close> (lines 204 to 207 and 210 to 213) have the
  same body: the ids of the items are appended to \<open>sellers\<close>.
\<close>

fun collect_ids :: "pyval list \<Rightarrow> int list \<Rightarrow> exn + int list" where
  "collect_ids [] sellers = Inr sellers"
| "collect_ids (item # items) sellers =
     bind_exn (dict_get item ''id'' PNone) (\<lambda>i.
     bind_exn (if truthy i then Inr i else dict_get item ''appid'' PNone) (\<lambda>appid.
       if truthy appid
       then bind_exn (py_int appid) (\<lambda>n. collect_ids items (sellers @ [n]))
       else collect_ids items sellers))"

text \<open>The body of the loop over \<^verbatim>\<open>j.items()\<close> for one value (lines 203 to 213).\<close>

definition collect_value :: "pyval \<Rightarrow> int list \<Rightarrow> exn + int list" where
  "collect_value val sellers =
     bind_exn
       (case val of
          PList (v0 # vs) \<Rightarrow> if is_dict v0 then collect_ids (v0 # vs) sellers else Inr sellers
        | _ \<Rightarrow> Inr sellers)
       (\<lambda>sellers1.
          case val of
            PDict kvs \<Rightarrow>
              (case map_of kvs ''items'' of
                 Some (PList its) \<Rightarrow> collect_ids its sellers1
               | _ \<Rightarrow> Inr sellers1)
          | _ \<Rightarrow> Inr sellers1)"

fun collect_sellers :: "(string \<times> pyval) list \<Rightarrow> int list \<Rightarrow> exn + int list" where
  "collect_sellers [] sellers = Inr sellers"
| "collect_sellers (kv # rest) sellers =
     bind_exn (collect_value (snd kv) sellers) (collect_sellers rest)"

text \<open>The loop of lines 218 to 223.\<close>

fun dedup_loop :: "int \<Rightarrow> int list \<Rightarrow> int list \<Rightarrow> int set \<Rightarrow> int list" where
  "dedup_loop limit [] out seen = out"
| "dedup_loop limit (a # rest) out seen =
     (let out1 = (if a \<notin> seen then out @ [a] else out);
          seen1 = (if a \<notin> seen then insert a seen else seen)
      in if int (length out1) \<ge> limit then out1 else dedup_loop limit rest out1 seen1)"

definition fetch_top_sellers_try :: "int \<Rightarrow> response \<Rightarrow> exn + int list" where
  "fetch_top_sellers_try limit r =
     bind_exn (json_of r) (\<lambda>j.
     bind_exn (py_items j) (\<lambda>kvs.
     bind_exn (collect_sellers kvs []) (\<lambda>sellers.
       Inr (dedup_loop limit sellers [] {}))))"

definition fetch_top_sellers :: "network \<Rightarrow> int \<Rightarrow> request list \<Rightarrow> int list \<times> request list" where
  "fetch_top_sellers net limit log =
     (let (r, log1) = http_get net GetFeaturedCategories log in
      case fetch_top_sellers_try limit r of
        Inl e \<Rightarrow> ([], log1)
      | Inr out \<Rightarrow> (out, log1))"

section \<open>Homepage\<close>

text \<open>
  \<^verbatim>\<open>[get_steam_game(aid) for aid in top_ids if get_steam_game(aid)]\<close>: for each id the
  condition is evaluated first, and the element by a second call when the condition is
  truthy. The result is the list \<open>games\<close> handed to the template.
\<close>

fun index_games :: "network \<Rightarrow> int list \<Rightarrow> request list \<Rightarrow> game option list \<times> request list" where
  "index_games net [] log = ([], log)"
| "index_games net (aid # rest) log =
     (let (c, log1) = get_steam_game net aid ''english'' log in
      if c \<noteq> None then
        (let (g, log2) = get_steam_game net aid ''english'' log1;
             (gs, log3) = index_games net rest log2
         in (g # gs, log3))
      else index_games net rest log1)"

definition index :: "network \<Rightarrow> request list \<Rightarrow> game option list \<times> request list" where
  "index net log =
     (let (top_ids, log1) = fetch_top_sellers net 9 log in index_games net top_ids log1)"

section \<open>Predicates of the specification\<close>

text \<open>
  The success flag of a details response for an appid: the value read by
  \<^verbatim>\<open>j[key].get("success")\<close> exists and is truthy.
\<close>

definition success_flag :: "int \<Rightarrow> pyval \<Rightarrow> bool" where
  "success_flag appid j =
     (case j of
        PDict kvs \<Rightarrow>
          (case map_of kvs (str_int appid) of
             Some (PDict entry) \<Rightarrow>
               (case map_of entry ''success'' of Some v \<Rightarrow> truthy v | None \<Rightarrow> False)
           | _ \<Rightarrow> False)
      | _ \<Rightarrow> False)"

text \<open>A successful response: it arrived, its status is a success, it is JSON, the flag is set.\<close>

definition successful_response :: "int \<Rightarrow> response \<Rightarrow> bool" where
  "successful_response appid r =
     (case r of
        Reply ok body (Some j) \<Rightarrow> ok \<and> success_flag appid j
      | _ \<Rightarrow> False)"

text \<open>
  The urls of movie media as the specification words them. \<open>field v k\<close> is the field \<open>k\<close>
  of \<open>v\<close>, \<open>PNone\<close> when \<open>v\<close> has no such field. \<open>entry_urls\<close> are the urls of one movie
  entry in the preference order webm-max, webm-480, mp4-max, mp4-480; \<open>media_urls\<close> are
  those of all the entries, in the order of the entries.
\<close>

definition field :: "pyval \<Rightarrow> string \<Rightarrow> pyval" where
  "field v k = (case dict_get v k PNone of Inl e \<Rightarrow> PNone | Inr x \<Rightarrow> x)"

definition entry_urls :: "pyval \<Rightarrow> pyval list" where
  "entry_urls m =
     filter truthy [field (field m ''webm'') ''max'', field (field m ''webm'') ''480'',
                    field (field m ''mp4'') ''max'', field (field m ''mp4'') ''480'']"

definition movie_entries :: "pyval \<Rightarrow> pyval list" where
  "movie_entries d = (case field d ''movies'' of PList ms \<Rightarrow> ms | _ \<Rightarrow> [])"

definition media_urls :: "pyval \<Rightarrow> pyval list" where
  "media_urls d = concat (map entry_urls (movie_entries d))"

definition first_url :: "pyval list \<Rightarrow> pyval" where
  "first_url us = (case us of [] \<Rightarrow> PNone | u # rest \<Rightarrow> u)"

text \<open>The ids of a list in first-seen order, leaving out those already seen.\<close>

fun first_seen :: "int list \<Rightarrow> int set \<Rightarrow> int list" where
  "first_seen [] seen = []"
| "first_seen (a # rest) seen =
     (if a \<in> seen then first_seen rest seen else a # first_seen rest (insert a seen))"

section \<open>Example inputs\<close>

subsection \<open>Example stores\<close>

definition empty_store :: store where
  "empty_store = \<lparr>favourites = [], reviews = []\<rparr>"

definition store0 :: store where
  "store0 = \<lparr>favourites = [\<lparr>fav_id = 1, fav_appid = 10, fav_name = ''CS'',
                             fav_image = None, fav_added_at = 0\<rparr>],
             reviews = []\<rparr>"

subsection \<open>Example responses\<close>

text \<open>The details response of the scenarios for id 10, with and without movie media.\<close>

definition data_with_movie :: pyval where
  "data_with_movie =
     PDict [(''name'', PStr ''Counter-Strike''), (''header_image'', PStr ''h.jpg''),
            (''movies'', PList [PDict [(''webm'', PDict [(''max'', PStr ''a.webm'')])]])]"

definition details_with_movie :: pyval where
  "details_with_movie =
     PDict [(''10'', PDict [(''success'', PBool True), (''data'', data_with_movie)])]"

definition data_no_movie :: pyval where
  "data_no_movie =
     PDict [(''name'', PStr ''Counter-Strike''), (''header_image'', PStr ''h.jpg'')]"


text \<open>Movie media whose first entry has no url and whose second entry has one.\<close>

definition data_second_movie :: pyval where
  "data_second_movie =
     PDict [(''name'', PStr ''Counter-Strike''),
            (''movies'', PList [PDict [], PDict [(''webm'', PDict [(''max'', PStr ''b.webm'')])]])]"

definition net_with_movie :: network where
  "net_with_movie n req =
     (case req of
        GetAppDetails a l \<Rightarrow> if a = 10 then Reply True [] (Some details_with_movie) else Fails
      | _ \<Rightarrow> Fails)"


text \<open>A categories response with one list, holding one item with id 10.\<close>

definition featured_one :: pyval where
  "featured_one = PDict [(''top_sellers'', PDict [(''items'', PList [PDict [(''id'', PInt 10)]])])]"

text \<open>
  A network that answers the categories request and the first details request, and
  whose every later request fails.
\<close>

definition net_flaky :: network where
  "net_flaky n req =
     (if n = 0 then Reply True [] (Some featured_one)
      else if n = 1 then Reply True [] (Some details_with_movie)
      else Fails)"

text \<open>A network on which every request fails.\<close>

definition net_down :: network where
  "net_down n req = Fails"

text \<open>
  Networks whose details response has an error status, is not JSON, and has its
  success flag unset.
\<close>

definition net_error_status :: network where
  "net_error_status n req = Reply False ''Too Many Requests'' None"

definition net_not_json :: network where
  "net_not_json n req = Reply True ''<html>'' None"

definition details_unsuccessful :: pyval where
  "details_unsuccessful = PDict [(''10'', PDict [(''success'', PBool False)])]"

definition net_unsuccessful :: network where
  "net_unsuccessful n req = Reply True [] (Some details_unsuccessful)"

section \<open>Properties of the persistence store\<close>

lemma first_favourite_None:
  "first_favourite n s = None \<longleftrightarrow> n \<notin> set (map fav_appid (favourites s))"
  by (auto simp: first_favourite_def find_None_iff)



text \<open>A new primary key is fresh, so the keys of the table stay distinct.\<close>

lemma next_id_greater: "i \<in> set ids \<Longrightarrow> i < next_id ids"
  unfolding next_id_def by (induction ids) auto


lemma unique_add:
  "unique_appids s \<Longrightarrow> add_favourite_db a nm im now s = Inr (b, s') \<Longrightarrow> unique_appids s'"
  by (auto simp: add_favourite_db_def bind_exn_def unique_appids_def first_favourite_None
      split: sum.splits option.splits)

lemma unique_remove:
  "unique_appids s \<Longrightarrow> remove_favourite_db a s = Inr (b, s') \<Longrightarrow> unique_appids s'"
  by (auto simp: remove_favourite_db_def bind_exn_def unique_appids_def delete_favourite_def
      distinct_map_filter split: sum.splits option.splits)

lemma unique_review:
  "unique_appids s \<Longrightarrow> add_review_db a r t now s = Inr (b, s') \<Longrightarrow> unique_appids s'"
  by (auto simp: add_review_db_def bind_exn_def unique_appids_def Let_def
      split: sum.splits option.splits)

lemma unique_store_after: "unique_appids s \<Longrightarrow> unique_appids (store_after op s)"
  by (cases op)
     (auto simp: store_after_def split: sum.splits
       dest: unique_add unique_remove unique_review)


lemma int_of_str_10: "int_of_str ''10'' = Inr 10"
  by (simp add: int_of_str_def strip_def is_space_def is_digit_def digit_val_def)

text \<open>
  Claim C6. Starting from a favourites table in which every externalId appears in at
  most one row, any sequence of the store operations (adding a favourite, removing a
  favourite, adding a review) ends in a table with the same uniqueness. An operation
  that raises leaves the store as it was.
\<close>

theorem favourites_unique_preserved:
  "unique_appids s \<Longrightarrow> unique_appids (run_ops ops s)"
proof (induction ops arbitrary: s)
  case Nil
  then show ?case by simp
next
  case (Cons op ops)
  from Cons.prems have "unique_appids (store_after op s)"
    by (rule unique_store_after)
  then show ?case by (simp add: Cons.IH)
qed

theorem favourites_unique_preserved_witness:
  "unique_appids store0 \<and>
   unique_appids (run_ops [AddFavourite (PStr ''10'') ''CS'' None 1,
                           AddFavourite (PStr ''10'') ''CS'' None 2,
                           AddReview (PInt 10) (PStr ''5'') ''good'' 3,
                           RemoveFavourite (PStr ''abc''),
                           RemoveFavourite (PStr ''10'')] store0)"
proof -
  have h: "unique_appids store0"
    by (simp add: unique_appids_def store0_def)
  show ?thesis
    using h favourites_unique_preserved [OF h] by blast
qed






text \<open>
  Claim C3, at the input where the code departs from it: a review form with a rating
  and no text field. The handler evaluates \<^verbatim>\<open>text.strip()\<close> on \<^verbatim>\<open>None\<close> and raises
  instead of flashing the warning and redirecting.
\<close>

theorem review_route_missing_text:
  "add_review_route [''rating'' \<mapsto> ''5''] 10 now s = Inl AttributeError"
  by (simp add: add_review_route_def)

text \<open>A whitespace-only rating passes the validation and then fails in \<^verbatim>\<open>int\<close>.\<close>

lemma review_route_blank_rating:
  "add_review_route [''rating'' \<mapsto> '' '', ''text'' \<mapsto> ''good''] 10 now s = Inl ValueError"
  by (simp add: add_review_route_def add_review_db_def bind_exn_def strip_def is_space_def
      int_of_str_def)

text \<open>With both fields filled in and a numeral for a rating, the review is stored.\<close>

lemma review_route_ok:
  "add_review_route [''rating'' \<mapsto> ''10'', ''text'' \<mapsto> ''good''] 10 7 empty_store
     = Inr (Redirect ''Review submitted!'' ''success'' (ToGameDetail 10),
            empty_store\<lparr>reviews := [\<lparr>rev_id = 1, rev_appid = 10, rev_rating = 10,
                                    rev_text = ''good'', rev_created_at = 7\<rparr>]\<rparr>)"
  by (simp add: add_review_route_def add_review_db_def bind_exn_def strip_def is_space_def
      int_of_str_10 empty_store_def next_id_def)

section \<open>Properties of the enrichment\<close>


lemma search_youtube_trailer_result:
  "search_youtube_trailer net nm log =
     (case net (length log) (GetYoutubeResults nm) of
        Fails \<Rightarrow> PNone
      | Reply ok body js \<Rightarrow>
          (case re_search_watch body of
             None \<Rightarrow> PNone
           | Some vid \<Rightarrow> PStr (''https://www.youtube.com/embed/'' @ vid)),
      log @ [GetYoutubeResults nm])"
  by (simp add: search_youtube_trailer_def http_get_def split: response.splits option.splits)


lemma read_details_fields:
  assumes "read_details appid d = Inr g"
  shows "steam_trailer d = Inr (trailer_url g) \<and>
         dict_get d ''name'' PNone = Inr (game_name g) \<and> game_appid g = appid"
  using assms unfolding read_details_def bind_exn_def
  by (auto split: sum.splits if_splits)

text \<open>The body of \<open>get_steam_game\<close>, by the cases of what the details request brought.\<close>

lemma get_steam_game_try_cases:
  "get_steam_game_try net appid lang log = (res, log') \<Longrightarrow>
   (case bind_exn (json_of (net (length log) (GetAppDetails appid lang))) (details_data appid) of
      Inl e \<Rightarrow> res = Inl e \<and> log' = log @ [GetAppDetails appid lang]
    | Inr None \<Rightarrow> res = Inr None \<and> log' = log @ [GetAppDetails appid lang]
    | Inr (Some d) \<Rightarrow>
       (case read_details appid d of
          Inl e \<Rightarrow> res = Inl e \<and> log' = log @ [GetAppDetails appid lang]
        | Inr g \<Rightarrow>
           if truthy (trailer_url g)
           then res = Inr (Some g) \<and> log' = log @ [GetAppDetails appid lang]
           else res = Inr (Some (g\<lparr>trailer_url :=
                        fst (search_youtube_trailer net (game_name g)
                               (log @ [GetAppDetails appid lang]))\<rparr>)) \<and>
                log' = log @ [GetAppDetails appid lang, GetYoutubeResults (game_name g)]))"
  by (auto simp: get_steam_game_try_def http_get_def search_youtube_trailer_result
       split: sum.splits option.splits prod.splits)

lemma details_data_flag:
  "details_data appid j = Inr (Some d) \<Longrightarrow> success_flag appid j"
  unfolding details_data_def bind_exn_def Let_def success_flag_def
  by (cases j) (auto split: sum.splits if_splits option.splits pyval.splits)

lemma json_of_Inr:
  "json_of r = Inr j \<Longrightarrow> \<exists>body. r = Reply True body (Some j)"
  by (cases r) (auto split: if_splits option.splits)

text \<open>What a result other than \<^verbatim>\<open>None\<close> says about the run that produced it.\<close>

lemma get_steam_game_Some:
  assumes "get_steam_game net appid lang log = (Some g, log')"
  shows "\<exists>body j d g0. net (length log) (GetAppDetails appid lang) = Reply True body (Some j) \<and>
           details_data appid j = Inr (Some d) \<and> read_details appid d = Inr g0 \<and>
           (if truthy (trailer_url g0)
            then g = g0 \<and> log' = log @ [GetAppDetails appid lang]
            else g = g0\<lparr>trailer_url := fst (search_youtube_trailer net (game_name g0)
                               (log @ [GetAppDetails appid lang]))\<rparr> \<and>
                 log' = log @ [GetAppDetails appid lang, GetYoutubeResults (game_name g0)])"
proof -
  obtain res where t: "get_steam_game_try net appid lang log = (res, log')"
    and r: "res = Inr (Some g)"
    using assms unfolding get_steam_game_def
    by (auto split: prod.splits sum.splits)
  let ?r = "net (length log) (GetAppDetails appid lang)"
  from get_steam_game_try_cases [OF t] r
  obtain d where d: "bind_exn (json_of ?r) (details_data appid) = Inr (Some d)"
    by (auto split: sum.splits option.splits)
  then obtain j where j: "json_of ?r = Inr j" and dd: "details_data appid j = Inr (Some d)"
    unfolding bind_exn_def by (auto split: sum.splits)
  from json_of_Inr [OF j] obtain body where b: "?r = Reply True body (Some j)" by blast
  from get_steam_game_try_cases [OF t] r d
  obtain g0 where g0: "read_details appid d = Inr g0"
    by (auto split: sum.splits)
  from get_steam_game_try_cases [OF t] r d g0
  have "if truthy (trailer_url g0)
            then g = g0 \<and> log' = log @ [GetAppDetails appid lang]
            else g = g0\<lparr>trailer_url := fst (search_youtube_trailer net (game_name g0)
                               (log @ [GetAppDetails appid lang]))\<rparr> \<and>
                 log' = log @ [GetAppDetails appid lang, GetYoutubeResults (game_name g0)]"
    by (auto split: if_splits)
  with b dd g0 show ?thesis by blast
qed

lemma get_steam_game_needs_success:
  assumes "\<not> successful_response appid (net (length log) (GetAppDetails appid lang))"
  shows "fst (get_steam_game net appid lang log) = None"
proof (rule ccontr)
  assume "fst (get_steam_game net appid lang log) \<noteq> None"
  then obtain g log' where "get_steam_game net appid lang log = (Some g, log')"
    by (cases "get_steam_game net appid lang log") auto
  from get_steam_game_Some [OF this] details_data_flag
  have "successful_response appid (net (length log) (GetAppDetails appid lang))"
    by (auto simp: successful_response_def)
  with assms show False by simp
qed

text \<open>The two scenarios of the specification, run.\<close>

lemma scenario_with_movie:
  "get_steam_game net_with_movie 10 ''english'' [] =
     (Some \<lparr>game_appid = 10, game_name = PStr ''Counter-Strike'',
            short_description = PStr [], header_image = PStr ''h.jpg'', genres = [],
            price = PStr em_dash, store_link = ''https://store.steampowered.com/app/10'',
            trailer_url = PStr ''a.webm''\<rparr>,
      [GetAppDetails 10 ''english''])"
  by code_simp


section \<open>Properties of the top sellers and the homepage\<close>

lemma first_seen_set: "set (first_seen xs seen) = set xs - seen"
  by (induction xs arbitrary: seen) auto

lemma first_seen_distinct: "distinct (first_seen xs seen)"
  by (induction xs arbitrary: seen) (auto simp: first_seen_set)

lemma dedup_loop_take:
  "int (length out) < limit \<Longrightarrow>
   dedup_loop limit xs out (set out) = take (nat limit) (out @ first_seen xs (set out))"
proof (induction xs arbitrary: out)
  case Nil
  then show ?case by simp
next
  case (Cons a rest)
  show ?case
  proof (cases "a \<in> set out")
    case True
    with Cons show ?thesis by simp
  next
    case False
    show ?thesis
    proof (cases "int (length (out @ [a])) \<ge> limit")
      case True
      with Cons.prems have "nat limit = length out + 1" by simp
      with False True show ?thesis by simp
    next
      case full: False
      then have "int (length (out @ [a])) < limit" by simp
      from Cons.IH [OF this] False full show ?thesis by simp
    qed
  qed
qed

lemma dedup_loop_initial:
  "1 \<le> limit \<Longrightarrow> dedup_loop limit xs [] {} = take (nat limit) (first_seen xs {})"
  using dedup_loop_take [of "[]" limit xs] by simp

lemma fetch_top_sellers_shape:
  assumes "1 \<le> limit"
  shows "\<exists>out. fetch_top_sellers net limit log = (out, log @ [GetFeaturedCategories]) \<and>
           distinct out \<and> int (length out) \<le> limit \<and>
           (case bind_exn (bind_exn (json_of (net (length log) GetFeaturedCategories)) py_items)
                   (\<lambda>kvs. collect_sellers kvs []) of
              Inl e \<Rightarrow> out = []
            | Inr sellers \<Rightarrow> out = take (nat limit) (first_seen sellers {}))"
proof (cases "bind_exn (bind_exn (json_of (net (length log) GetFeaturedCategories)) py_items)
                   (\<lambda>kvs. collect_sellers kvs [])")
  case (Inl e)
  then have "fetch_top_sellers net limit log = ([], log @ [GetFeaturedCategories])"
    by (auto simp: fetch_top_sellers_def fetch_top_sellers_try_def http_get_def bind_exn_def
        split: sum.splits)
  with Inl assms show ?thesis by simp
next
  case (Inr sellers)
  then have "fetch_top_sellers net limit log
          = (dedup_loop limit sellers [] {}, log @ [GetFeaturedCategories])"
    by (auto simp: fetch_top_sellers_def fetch_top_sellers_try_def http_get_def bind_exn_def
        split: sum.splits)
  with Inr assms show ?thesis
    by (simp add: dedup_loop_initial first_seen_distinct)
qed

text \<open>
  With a limit of at least one, \<open>fetch_top_sellers\<close> makes the categories request and
  returns the collected ids in first-seen order without duplicates, cut to the limit;
  it returns the empty list when the request, the parsing or the collection fails.
\<close>

theorem fetch_top_sellers_positive_limit:
  assumes "1 \<le> limit"
  shows "\<exists>out. fetch_top_sellers net limit log = (out, log @ [GetFeaturedCategories]) \<and>
           distinct out \<and> int (length out) \<le> limit \<and>
           (case bind_exn (bind_exn (json_of (net (length log) GetFeaturedCategories)) py_items)
                   (\<lambda>kvs. collect_sellers kvs []) of
              Inl e \<Rightarrow> out = []
            | Inr sellers \<Rightarrow> out = take (nat limit) (first_seen sellers {}))"
  using assms by (rule fetch_top_sellers_shape)

theorem fetch_top_sellers_positive_limit_witness:
  "(1::int) \<le> 9 \<and>
   (\<exists>out. fetch_top_sellers net_flaky 9 [] = (out, [GetFeaturedCategories]) \<and>
          distinct out \<and> int (length out) \<le> 9 \<and> out = [10])"
proof -
  have h: "(1::int) \<le> 9" by simp
  have v: "fetch_top_sellers net_flaky 9 [] = ([10], [GetFeaturedCategories])"
    by code_simp
  from fetch_top_sellers_positive_limit [OF h, of net_flaky "[]"] v
  show ?thesis by simp
qed

lemma get_steam_game_appid:
  assumes "get_steam_game net appid lang log = (Some g, log')"
  shows "game_appid g = appid"
  using get_steam_game_Some [OF assms] read_details_fields
  by (fastforce split: if_splits)


lemma index_games_ids:
  "index_games net ids log = (games, log') \<Longrightarrow>
   length games \<le> length ids \<and>
   subseq (map game_appid (List.map_filter (\<lambda>g. g) games)) ids"
proof (induction ids arbitrary: log games log')
  case Nil
  then show ?case by (simp add: List.map_filter_simps)
next
  case (Cons aid rest)
  obtain c log1 where c: "get_steam_game net aid ''english'' log = (c, log1)"
    by (cases "get_steam_game net aid ''english'' log")
  show ?case
  proof (cases c)
    case None
    with Cons.prems c have "index_games net rest log1 = (games, log')" by simp
    from Cons.IH [OF this] show ?thesis by auto
  next
    case (Some x)
    obtain g log2 where g: "get_steam_game net aid ''english'' log1 = (g, log2)"
      by (cases "get_steam_game net aid ''english'' log1")
    obtain gs log3 where gs: "index_games net rest log2 = (gs, log3)"
      by (cases "index_games net rest log2")
    from Cons.prems c Some g gs have games: "games = g # gs" by simp
    from Cons.IH [OF gs] have len: "length gs \<le> length rest"
      and sub: "subseq (map game_appid (List.map_filter (\<lambda>g. g) gs)) rest" by simp_all
    show ?thesis
    proof (cases g)
      case None
      with games len sub show ?thesis by (auto simp: List.map_filter_simps)
    next
      case (Some y)
      with g have "game_appid y = aid" by (auto dest: get_steam_game_appid)
      with Some games len sub show ?thesis by (auto simp: List.map_filter_simps)
    qed
  qed
qed

text \<open>
  The homepage list has at most nine elements, and the externalIds of its items (the
  elements other than \<^verbatim>\<open>None\<close>) are distinct and in the order of the top sellers. An id
  whose first \<open>get_steam_game\<close> call fails is left out and the rest of the list is built.
\<close>

theorem index_feed_shape:
  "\<exists>top_ids log1 games log2.
      fetch_top_sellers net 9 log = (top_ids, log1) \<and>
      index net log = (games, log2) \<and>
      length games \<le> 9 \<and>
      subseq (map game_appid (List.map_filter (\<lambda>g. g) games)) top_ids \<and>
      distinct (map game_appid (List.map_filter (\<lambda>g. g) games))"
proof -
  from fetch_top_sellers_shape [of 9 net log]
  obtain top_ids where f: "fetch_top_sellers net 9 log = (top_ids, log @ [GetFeaturedCategories])"
    and d: "distinct top_ids" and l: "length top_ids \<le> 9" by auto
  obtain games log2 where i: "index_games net top_ids (log @ [GetFeaturedCategories]) = (games, log2)"
    by (cases "index_games net top_ids (log @ [GetFeaturedCategories])")
  from f i have ix: "index net log = (games, log2)" by (simp add: index_def)
  from index_games_ids [OF i] have len: "length games \<le> length top_ids"
    and sub: "subseq (map game_appid (List.map_filter (\<lambda>g. g) games)) top_ids" by simp_all
  from sub d have "distinct (map game_appid (List.map_filter (\<lambda>g. g) games))"
    by (auto simp: subseq_conv_nths)
  with f ix len l sub show ?thesis by auto
qed

subsection \<open>The catalog's own trailer\<close>

lemma field_dict: "dict_get v k PNone = Inr x \<Longrightarrow> field v k = x"
  by (simp add: field_def)

lemma get_field: "dict_get v k PNone = Inr x \<Longrightarrow> x = field v k"
  by (simp add: field_def)

lemma field_or_empty: "field (py_or w (PDict [])) k = field w k"
  by (cases w) (auto simp: field_def py_or_def)

lemma py_or_truthy: "truthy x \<Longrightarrow> py_or x y = x"
  by (simp add: py_or_def)

lemma py_or_falsy: "\<not> truthy x \<Longrightarrow> py_or x y = y"
  by (simp add: py_or_def)

text \<open>The trailer read from one movie entry is the first of its urls, when it has one.\<close>

lemma entry_trailer:
  assumes "bind_exn (dict_get first ''webm'' PNone) (\<lambda>w.
           let webm = py_or w (PDict []) in
           bind_exn (dict_get webm ''max'' PNone) (\<lambda>wmax.
           bind_exn (if truthy wmax then Inr wmax else dict_get webm ''480'' PNone) (\<lambda>trailer.
             if \<not> truthy trailer then
               bind_exn (dict_get first ''mp4'' PNone) (\<lambda>p.
                 let mp4 = py_or p (PDict []) in
                 bind_exn (dict_get mp4 ''max'' PNone) (\<lambda>pmax.
                   if truthy pmax then Inr pmax else dict_get mp4 ''480'' PNone))
             else Inr trailer))) = Inr t"
  shows "case entry_urls first of [] \<Rightarrow> \<not> truthy t | u # us \<Rightarrow> t = u"
  using assms unfolding bind_exn_def Let_def entry_urls_def
  by (auto simp: field_or_empty split: sum.splits if_splits dest!: get_field)

lemma steam_trailer_first_entry:
  assumes "steam_trailer d = Inr t"
  shows "case movie_entries d of
           [] \<Rightarrow> t = PNone
         | m # rest \<Rightarrow> (case entry_urls m of [] \<Rightarrow> \<not> truthy t | u # us \<Rightarrow> t = u)"
proof -
  obtain mv where mv: "dict_get d ''movies'' PNone = Inr mv"
    using assms unfolding steam_trailer_def bind_exn_def by (auto split: sum.splits)
  then have fm: "field d ''movies'' = mv" by (rule field_dict)
  show ?thesis
  proof (cases "truthy mv")
    case False
    with assms mv have t: "t = PNone"
      unfolding steam_trailer_def bind_exn_def by (simp add: py_or_falsy)
    from False have "movie_entries d = []"
      unfolding movie_entries_def fm by (cases mv) auto
    with t show ?thesis by simp
  next
    case True
    with assms mv obtain first where f: "subscript0 mv = Inr first"
      unfolding steam_trailer_def bind_exn_def by (auto simp: py_or_truthy split: sum.splits)
    with True assms mv obtain w where w: "dict_get first ''webm'' PNone = Inr w"
      unfolding steam_trailer_def bind_exn_def by (auto simp: py_or_truthy split: sum.splits)
    then obtain kvs where first: "first = PDict kvs" by (cases first) auto
    with f obtain rest where ms: "mv = PList (first # rest)"
      by (cases mv rule: subscript0.cases) auto
    then have me: "movie_entries d = first # rest"
      unfolding movie_entries_def fm by simp
    from True assms mv f
    have "case entry_urls first of [] \<Rightarrow> \<not> truthy t | u # us \<Rightarrow> t = u"
      unfolding steam_trailer_def
      by (intro entry_trailer) (simp add: bind_exn_def py_or_truthy)
    with me show ?thesis by simp
  qed
qed

lemma steam_trailer_no_media:
  assumes "steam_trailer d = Inr t" and "media_urls d = []"
  shows "\<not> truthy t"
  using steam_trailer_first_entry [OF assms(1)] assms(2)
  by (auto simp: media_urls_def split: list.splits)

subsection \<open>The claims on the enrichment\<close>



text \<open>
  Claim C2, as the code has it. The catalog's own trailer is read from the first entry
  of the movie media only: it is the first url of that entry in the preference order
  webm-max, webm-480, mp4-max, mp4-480; with no movie media it is \<^verbatim>\<open>None\<close>, and when the
  first entry has no url it is a falsy value; in particular it is falsy when no url
  exists anywhere in the movie media. In the scenario whose movie media is
  \<^verbatim>\<open>[{webm: {max: "a.webm"}}]\<close> the item's \<open>trailer_url\<close> is \<^verbatim>\<open>"a.webm"\<close> and the details
  request is the only request made.
\<close>

theorem native_trailer_first_entry:
  "(\<forall>d t. steam_trailer d = Inr t \<longrightarrow>
      (case movie_entries d of
         [] \<Rightarrow> t = PNone
       | m # rest \<Rightarrow> (case entry_urls m of [] \<Rightarrow> \<not> truthy t | u # us \<Rightarrow> t = u)) \<and>
      (media_urls d = [] \<longrightarrow> \<not> truthy t)) \<and>
   (\<exists>g. get_steam_game net_with_movie 10 ''english'' [] = (Some g, [GetAppDetails 10 ''english'']) \<and>
        trailer_url g = PStr ''a.webm'')"
proof (intro conjI allI impI)
  fix d t
  assume "steam_trailer d = Inr t"
  then show "case movie_entries d of
         [] \<Rightarrow> t = PNone
       | m # rest \<Rightarrow> (case entry_urls m of [] \<Rightarrow> \<not> truthy t | u # us \<Rightarrow> t = u)"
    by (rule steam_trailer_first_entry)
next
  fix d t
  assume "steam_trailer d = Inr t" and "media_urls d = []"
  then show "\<not> truthy t" by (rule steam_trailer_no_media)
next
  show "\<exists>g. get_steam_game net_with_movie 10 ''english'' [] = (Some g, [GetAppDetails 10 ''english'']) \<and>
        trailer_url g = PStr ''a.webm''"
    using scenario_with_movie by simp
qed

theorem native_trailer_first_entry_witness:
  "steam_trailer data_with_movie = Inr (PStr ''a.webm'') \<and>
   movie_entries data_with_movie = [PDict [(''webm'', PDict [(''max'', PStr ''a.webm'')])]] \<and>
   entry_urls (PDict [(''webm'', PDict [(''max'', PStr ''a.webm'')])]) = [PStr ''a.webm''] \<and>
   (case movie_entries data_with_movie of
      [] \<Rightarrow> PStr ''a.webm'' = PNone
    | m # rest \<Rightarrow> (case entry_urls m of [] \<Rightarrow> \<not> truthy (PStr ''a.webm'')
                                     | u # us \<Rightarrow> PStr ''a.webm'' = u)) \<and>
   steam_trailer data_no_movie = Inr PNone \<and> media_urls data_no_movie = [] \<and>
   \<not> truthy PNone"
proof -
  have h: "steam_trailer data_with_movie = Inr (PStr ''a.webm'')"
    by code_simp
  have m: "movie_entries data_with_movie = [PDict [(''webm'', PDict [(''max'', PStr ''a.webm'')])]]"
    by code_simp
  have e: "entry_urls (PDict [(''webm'', PDict [(''max'', PStr ''a.webm'')])]) = [PStr ''a.webm'']"
    by code_simp
  from native_trailer_first_entry h
  have c: "case movie_entries data_with_movie of
      [] \<Rightarrow> PStr ''a.webm'' = PNone
    | m # rest \<Rightarrow> (case entry_urls m of [] \<Rightarrow> \<not> truthy (PStr ''a.webm'')
                                     | u # us \<Rightarrow> PStr ''a.webm'' = u)"
    by blast
  have h2: "steam_trailer data_no_movie = Inr PNone"
    by code_simp
  have m2: "media_urls data_no_movie = []"
    by code_simp
  from native_trailer_first_entry h2 m2 have f: "\<not> truthy PNone"
    by blast
  from h m e c h2 m2 f show ?thesis by blast
qed

text \<open>
  Claim C2 as stated fails: with movie media whose first entry has no url and whose
  second entry has \<^verbatim>\<open>"b.webm"\<close> as its webm-max, the only url in the movie media, and so
  the first one found in any order, is \<^verbatim>\<open>"b.webm"\<close>, and the code's trailer is \<^verbatim>\<open>None\<close>.
\<close>

theorem native_trailer_not_from_later_entry:
  "\<not> (\<forall>d t. steam_trailer d = Inr t \<longrightarrow> t = first_url (media_urls d))"
proof
  assume "\<forall>d t. steam_trailer d = Inr t \<longrightarrow> t = first_url (media_urls d)"
  moreover have "steam_trailer data_second_movie = Inr PNone"
    by code_simp
  ultimately have "PNone = first_url (media_urls data_second_movie)"
    by blast
  moreover have "first_url (media_urls data_second_movie) = PStr ''b.webm''"
    by code_simp
  ultimately show False by simp
qed

text \<open>
  Claim C4. \<open>get_steam_game\<close> turns every exception of its body into \<^verbatim>\<open>None\<close>. It
  returns \<^verbatim>\<open>None\<close> when the request fails (network error, timeout), when the status is
  an error, when the body is not JSON, and when the success flag is not set; an item is
  returned only on a successful response.
\<close>

theorem get_steam_game_fails_closed:
  "(\<forall>e log'. get_steam_game_try net appid lang log = (Inl e, log') \<longrightarrow>
       get_steam_game net appid lang log = (None, log')) \<and>
   (net (length log) (GetAppDetails appid lang) = Fails \<longrightarrow>
       fst (get_steam_game net appid lang log) = None) \<and>
   (\<forall>body js. net (length log) (GetAppDetails appid lang) = Reply False body js \<longrightarrow>
       fst (get_steam_game net appid lang log) = None) \<and>
   (\<forall>ok body. net (length log) (GetAppDetails appid lang) = Reply ok body None \<longrightarrow>
       fst (get_steam_game net appid lang log) = None) \<and>
   (\<forall>ok body j. net (length log) (GetAppDetails appid lang) = Reply ok body (Some j) \<and>
                 \<not> success_flag appid j \<longrightarrow>
       fst (get_steam_game net appid lang log) = None) \<and>
   (\<forall>g. fst (get_steam_game net appid lang log) = Some g \<longrightarrow>
       successful_response appid (net (length log) (GetAppDetails appid lang)))"
proof (intro conjI allI impI)
  fix e log'
  assume "get_steam_game_try net appid lang log = (Inl e, log')"
  then show "get_steam_game net appid lang log = (None, log')"
    by (simp add: get_steam_game_def)
next
  assume "net (length log) (GetAppDetails appid lang) = Fails"
  then show "fst (get_steam_game net appid lang log) = None"
    by (intro get_steam_game_needs_success) (simp add: successful_response_def)
next
  fix body js
  assume "net (length log) (GetAppDetails appid lang) = Reply False body js"
  then show "fst (get_steam_game net appid lang log) = None"
    by (intro get_steam_game_needs_success)
       (simp add: successful_response_def split: option.splits)
next
  fix ok body
  assume "net (length log) (GetAppDetails appid lang) = Reply ok body None"
  then show "fst (get_steam_game net appid lang log) = None"
    by (intro get_steam_game_needs_success) (simp add: successful_response_def)
next
  fix ok body j
  assume "net (length log) (GetAppDetails appid lang) = Reply ok body (Some j) \<and>
          \<not> success_flag appid j"
  then show "fst (get_steam_game net appid lang log) = None"
    by (intro get_steam_game_needs_success) (simp add: successful_response_def)
next
  fix g
  assume "fst (get_steam_game net appid lang log) = Some g"
  then show "successful_response appid (net (length log) (GetAppDetails appid lang))"
    using get_steam_game_needs_success [of appid net log lang] by fastforce
qed

theorem get_steam_game_fails_closed_witness:
  "get_steam_game_try net_down 10 ''english'' []
     = (Inl RequestException, [GetAppDetails 10 ''english'']) \<and>
   get_steam_game net_down 10 ''english'' [] = (None, [GetAppDetails 10 ''english'']) \<and>
   net_down (length ([] :: request list)) (GetAppDetails 10 ''english'') = Fails \<and>
   fst (get_steam_game net_down 10 ''english'' []) = None \<and>
   net_error_status (length ([] :: request list)) (GetAppDetails 10 ''english'')
     = Reply False ''Too Many Requests'' None \<and>
   fst (get_steam_game net_error_status 10 ''english'' []) = None \<and>
   net_not_json (length ([] :: request list)) (GetAppDetails 10 ''english'')
     = Reply True ''<html>'' None \<and>
   fst (get_steam_game net_not_json 10 ''english'' []) = None \<and>
   net_unsuccessful (length ([] :: request list)) (GetAppDetails 10 ''english'')
     = Reply True [] (Some details_unsuccessful) \<and>
   \<not> success_flag 10 details_unsuccessful \<and>
   fst (get_steam_game net_unsuccessful 10 ''english'' []) = None \<and>
   fst (get_steam_game net_with_movie 10 ''english'' [])
     = Some \<lparr>game_appid = 10, game_name = PStr ''Counter-Strike'',
            short_description = PStr [], header_image = PStr ''h.jpg'', genres = [],
            price = PStr em_dash, store_link = ''https://store.steampowered.com/app/10'',
            trailer_url = PStr ''a.webm''\<rparr> \<and>
   successful_response 10 (net_with_movie (length ([] :: request list)) (GetAppDetails 10 ''english''))"
proof -
  have raised: "get_steam_game_try net_down 10 ''english'' []
     = (Inl RequestException, [GetAppDetails 10 ''english''])"
    by code_simp
  have caught: "get_steam_game net_down 10 ''english'' [] = (None, [GetAppDetails 10 ''english''])"
    using get_steam_game_fails_closed [of net_down 10 "''english''" "[]"] raised by blast
  have down: "net_down (length ([] :: request list)) (GetAppDetails 10 ''english'') = Fails"
    by (simp add: net_down_def)
  have r1: "fst (get_steam_game net_down 10 ''english'' []) = None"
    using get_steam_game_fails_closed [of net_down 10 "''english''" "[]"] down by blast
  have status: "net_error_status (length ([] :: request list)) (GetAppDetails 10 ''english'')
     = Reply False ''Too Many Requests'' None"
    by (simp add: net_error_status_def)
  have r2: "fst (get_steam_game net_error_status 10 ''english'' []) = None"
    using get_steam_game_fails_closed [of net_error_status 10 "''english''" "[]"] status
    by blast
  have garbled: "net_not_json (length ([] :: request list)) (GetAppDetails 10 ''english'')
     = Reply True ''<html>'' None"
    by (simp add: net_not_json_def)
  have r3: "fst (get_steam_game net_not_json 10 ''english'' []) = None"
    using get_steam_game_fails_closed [of net_not_json 10 "''english''" "[]"] garbled
    by blast
  have unset: "net_unsuccessful (length ([] :: request list)) (GetAppDetails 10 ''english'')
     = Reply True [] (Some details_unsuccessful)"
    by (simp add: net_unsuccessful_def)
  have flag: "\<not> success_flag 10 details_unsuccessful"
    by code_simp
  have r4: "fst (get_steam_game net_unsuccessful 10 ''english'' []) = None"
    using get_steam_game_fails_closed [of net_unsuccessful 10 "''english''" "[]"] unset flag
    by blast
  have item: "fst (get_steam_game net_with_movie 10 ''english'' [])
     = Some \<lparr>game_appid = 10, game_name = PStr ''Counter-Strike'',
            short_description = PStr [], header_image = PStr ''h.jpg'', genres = [],
            price = PStr em_dash, store_link = ''https://store.steampowered.com/app/10'',
            trailer_url = PStr ''a.webm''\<rparr>"
    by (simp add: scenario_with_movie)
  have "successful_response 10
          (net_with_movie (length ([] :: request list)) (GetAppDetails 10 ''english''))"
    using get_steam_game_fails_closed [of net_with_movie 10 "''english''" "[]"] item by blast
  with raised caught down r1 status r2 garbled r3 unset flag r4 item show ?thesis
    by blast
qed

section \<open>Runs that depart from the specification\<close>


text \<open>
  Claim C9, at an input where the code departs from it: the homepage calls
  \<open>get_steam_game\<close> twice for each id, once to filter and once for the element. When the
  first call succeeds and the second fails, the list handed to the template holds
  \<^verbatim>\<open>None\<close>.
\<close>

theorem index_keeps_failed_item:
  "index net_flaky [] =
     ([None], [GetFeaturedCategories, GetAppDetails 10 ''english'', GetAppDetails 10 ''english''])"
  by code_simp

end
